theory Spec2Isabelle
  imports Complex_Main "HOL-Library.Sublist"
begin

section \<open>Python strings\<close>

text \<open>
  A Python \<open>str\<close> is modelled as a \<open>string\<close> whose characters are the code points
  0..255 (Latin-1). \<open>p in s\<close> is \<^const>\<open>sublist\<close>, \<open>s.startswith(p)\<close> is
  \<^const>\<open>prefix\<close>, \<open>a + b\<close> is \<open>a @ b\<close>.
\<close>

definition NL :: string where
  "NL = [CHR 0x0A]"

definition DQ :: string where
  "DQ = [CHR 0x22]"

text \<open>\<open>str.isspace\<close> on one character of the Latin-1 range.\<close>

definition isspace :: "char \<Rightarrow> bool" where
  "isspace c = (let n = (of_char c :: nat) in
     (9 \<le> n \<and> n \<le> 13) \<or> (28 \<le> n \<and> n \<le> 32) \<or> n = 133 \<or> n = 160)"

text \<open>\<open>str.lower\<close>: the upper-case letters of the Latin-1 range move up by 32.\<close>

definition lower_char :: "char \<Rightarrow> char" where
  "lower_char c = (let n = (of_char c :: nat) in
     if (65 \<le> n \<and> n \<le> 90) \<or> (192 \<le> n \<and> n \<le> 222 \<and> n \<noteq> 215)
     then char_of (n + 32) else c)"

definition lower :: "string \<Rightarrow> string" where
  "lower s = map lower_char s"

definition strip :: "string \<Rightarrow> string" where
  "strip s = rev (dropWhile isspace (rev (dropWhile isspace s)))"

text \<open>\<open>s.split()\<close>: the maximal runs of non-whitespace characters, in order.\<close>

fun split_ws :: "string \<Rightarrow> string \<Rightarrow> string list" where
  "split_ws cur [] = (if cur = [] then [] else [cur])"
| "split_ws cur (c # cs) =
     (if isspace c then (if cur = [] then split_ws [] cs else cur # split_ws [] cs)
      else split_ws (cur @ [c]) cs)"

definition split :: "string \<Rightarrow> string list" where
  "split s = split_ws [] s"

text \<open>
  \<open>s.replace(old, new)\<close> for a non-empty \<open>old\<close>: the non-overlapping occurrences are
  replaced from left to right. The source only calls it with the non-empty prefixes
  \<open>"Chunk::"\<close> and \<open>"Clause::"\<close>; for an empty \<open>old\<close> this function returns \<open>s\<close>.
\<close>

function replace :: "string \<Rightarrow> string \<Rightarrow> string \<Rightarrow> string" where
  "replace old new s =
     (if s = [] then []
      else if old \<noteq> [] \<and> prefix old s then new @ replace old new (drop (length old) s)
      else hd s # replace old new (tl s))"
  by pat_completeness auto
termination
  by (relation "measure (\<lambda>(old, new, s). length s)") auto

declare replace.simps [simp del]

text \<open>\<open>sep.join(items)\<close> on a list of strings.\<close>

fun join :: "string \<Rightarrow> string list \<Rightarrow> string" where
  "join sep [] = []"
| "join sep [x] = x"
| "join sep (x # y # ys) = x @ sep @ join sep (y # ys)"

section \<open>Errors and Python values\<close>

datatype error =
    GraphError string
  | LLMError string
  | EmbeddingError string
  | JSONDecodeError
  | AttributeError
  | TypeError
  | IndexError
  | KeyError
  | HTTPException nat string

text \<open>
  A value decoded from JSON, as far as the program looks at it: \<open>None\<close>, a string, or
  any other value, which is carried with its \<open>str()\<close> text (what an f-string prints).
\<close>

datatype pyval = PNone | PStr string | POther string

fun py_str :: "pyval \<Rightarrow> string" where
  "py_str PNone = ''None''"
| "py_str (PStr s) = s"
| "py_str (POther r) = r"

record fact =
  source :: string
  relation :: string
  target :: "string option"
  label :: "string option"

section \<open>Follow-up detection\<close>

definition FOLLOWUP_PATTERNS :: "string list" where
  "FOLLOWUP_PATTERNS =
     [''explain again'', ''repeat'', ''again'', ''clarify'',
      ''more clearly'', ''elaborate'', ''explain that'']"

text \<open>
  \<open>is_followup(prev, q)\<close>. The embedding model is a collaborator: \<open>sim prev q\<close> is the
  value of \<open>util.cos_sim(encode(prev), encode(q)).item()\<close>, or the exception raised
  while loading the model or encoding.
\<close>

definition is_followup ::
  "(string \<Rightarrow> string \<Rightarrow> error + real) \<Rightarrow> string \<Rightarrow> string \<Rightarrow> error + bool" where
  "is_followup sim prev q =
     (if prev = [] then Inr False
      else let ql = strip (lower q) in
        if list_ex (\<lambda>p. sublist p ql) FOLLOWUP_PATTERNS then Inr True
        else if length (split q) \<le> 4 then
          (case sim prev q of Inl e \<Rightarrow> Inl e | Inr s \<Rightarrow> Inr (s > 0.55))
        else Inr False)"

section \<open>Collaborators and module state\<close>

text \<open>
  Everything the program reaches outside itself is a field of the environment:
  \<^item> \<open>llm_chat prompt temperature max_tokens\<close>: the chat completion; the exception it
    raises, or \<open>choices[0].message.content\<close> (which may be \<open>None\<close>);
  \<^item> \<open>json_loads\<close>: \<open>json.loads\<close>: the decoded object as a map from its keys to their
    values (JSON \<open>null\<close> is \<open>PNone\<close>), or the exception raised (also when the text
    decodes to something without \<open>.get\<close>);
  \<^item> \<open>cos_sim\<close>: the embedding similarity used by follow-up detection;
  \<^item> \<open>graph_nodes topic_json\<close>: the \<open>nodes\<close> column of the topic query (an identifier
    may be \<open>None\<close>), or the driver's exception;
  \<^item> \<open>graph_facts ids\<close>: the rows of the facts query, or the driver's exception;
  \<^item> \<open>topk query k\<close>: the indices \<open>scores.topk(k).indices\<close> of the vector search;
  \<^item> \<open>id2text\<close>, \<open>all_ids\<close>: the fragment corpus loaded at start-up;
  \<^item> \<open>uuid4\<close>: the identifier drawn for a request without a conversation identifier;
  \<^item> \<open>id_set_list\<close>, \<open>label_set_list\<close>: \<open>list(set(xs))\<close>. Python does not specify the
    order in which a set is enumerated (for strings it depends on the hash seed of the
    process), so the enumeration is a parameter; \<open>set_list_ok\<close> says what Python does
    guarantee of it.
\<close>

record env =
  llm_chat :: "string \<Rightarrow> rat \<Rightarrow> nat \<Rightarrow> error + string option"
  json_loads :: "string \<Rightarrow> error + (string \<rightharpoonup> pyval)"
  cos_sim :: "string \<Rightarrow> string \<Rightarrow> error + real"
  graph_nodes :: "string \<Rightarrow> error + string option list"
  graph_facts :: "string list \<Rightarrow> error + fact list"
  topk :: "string \<Rightarrow> nat \<Rightarrow> error + nat list"
  id2text :: "string \<rightharpoonup> string"
  all_ids :: "string list"
  uuid4 :: string
  id_set_list :: "string list \<Rightarrow> string list"
  label_set_list :: "string option list \<Rightarrow> string option list"

definition set_list_ok :: "('a list \<Rightarrow> 'a list) \<Rightarrow> bool" where
  "set_list_ok f = (\<forall>xs. distinct (f xs) \<and> set (f xs) = set xs)"

text \<open>The queries sent to the graph collaborator, in the order they are sent.\<close>

datatype graph_call = TopicQuery string | FactsQuery "string list"

section \<open>Graph expansion\<close>

definition topic_json :: "pyval \<Rightarrow> string" where
  "topic_json topic_key = DQ @ ''canonical'' @ DQ @ '': '' @ DQ @ py_str topic_key @ DQ"

text \<open>\<open>[n for n in nodes if n]\<close>: \<open>None\<close> and the empty string are dropped.\<close>

fun truthy_ids :: "string option list \<Rightarrow> string list" where
  "truthy_ids [] = []"
| "truthy_ids (None # ns) = truthy_ids ns"
| "truthy_ids (Some n # ns) = (if n = [] then truthy_ids ns else n # truthy_ids ns)"

definition get_topic_related_nodes ::
  "env \<Rightarrow> pyval \<Rightarrow> (error + string list) \<times> graph_call list" where
  "get_topic_related_nodes E topic_key =
     (case graph_nodes E (topic_json topic_key) of
        Inl e \<Rightarrow> (Inl e, [TopicQuery (topic_json topic_key)])
      | Inr nodes \<Rightarrow> (Inr (truthy_ids nodes), [TopicQuery (topic_json topic_key)]))"

definition get_kg_facts ::
  "env \<Rightarrow> string list \<Rightarrow> (error + fact list) \<times> graph_call list" where
  "get_kg_facts E node_ids =
     (if node_ids = [] then (Inr [], [])
      else (graph_facts E node_ids, [FactsQuery node_ids]))"

section \<open>Vector search\<close>

fun sequence_err :: "(error + 'a) list \<Rightarrow> error + 'a list" where
  "sequence_err [] = Inr []"
| "sequence_err (Inl e # rs) = Inl e"
| "sequence_err (Inr x # rs) =
     (case sequence_err rs of Inl e \<Rightarrow> Inl e | Inr xs \<Rightarrow> Inr (x # xs))"

definition rag_result :: "env \<Rightarrow> nat \<Rightarrow> error + (string \<times> string)" where
  "rag_result E idx =
     (if idx < length (all_ids E) then
        (case id2text E (all_ids E ! idx) of
           None \<Rightarrow> Inl KeyError
         | Some txt \<Rightarrow> Inr (all_ids E ! idx, txt))
      else Inl IndexError)"

definition rag_search :: "env \<Rightarrow> string \<Rightarrow> nat \<Rightarrow> error + (string \<times> string) list" where
  "rag_search E query top_k =
     (case topk E query top_k of
        Inl e \<Rightarrow> Inl e
      | Inr indices \<Rightarrow> sequence_err (map (rag_result E) indices))"

section \<open>Hybrid retrieval\<close>

definition normalize_one :: "string \<Rightarrow> string list" where
  "normalize_one nid =
     (if prefix ''Chunk::'' nid then [replace ''Chunk::'' [] nid]
      else if prefix ''Clause::'' nid then [replace ''Clause::'' [] nid]
      else [])"

definition normalize_kg :: "string list \<Rightarrow> string list" where
  "normalize_kg kg_chunk_ids = concat (map normalize_one kg_chunk_ids)"

definition text_of :: "env \<Rightarrow> string \<Rightarrow> string" where
  "text_of E cid = (case id2text E cid of None \<Rightarrow> [] | Some txt \<Rightarrow> txt)"

definition hybrid_retrieve ::
  "env \<Rightarrow> string \<Rightarrow> pyval \<Rightarrow>
     (error + ((string \<times> string) list \<times> fact list)) \<times> graph_call list" where
  "hybrid_retrieve E query topic_key =
     (case get_topic_related_nodes E topic_key of
        (Inl e, log1) \<Rightarrow> (Inl e, log1)
      | (Inr kg_chunk_ids, log1) \<Rightarrow>
          (case rag_search E query 5 of
             Inl e \<Rightarrow> (Inl e, log1)
           | Inr rag_results \<Rightarrow>
               (let merged_ids =
                      id_set_list E (normalize_kg kg_chunk_ids @ map fst rag_results)
                in case get_kg_facts E (map (\<lambda>cid. ''Chunk::'' @ cid) merged_ids) of
                     (Inl e, log2) \<Rightarrow> (Inl e, log1 @ log2)
                   | (Inr kg_facts, log2) \<Rightarrow>
                       (Inr (map (\<lambda>cid. (cid, text_of E cid)) merged_ids, kg_facts),
                        log1 @ log2))))"

text \<open>
  \<open>retrieve\<close> of the backend: the fragments for the prompt, the facts, and the
  fragments used with a preview of 400 characters.
\<close>

definition retrieve ::
  "env \<Rightarrow> string \<Rightarrow> pyval \<Rightarrow>
     error + ((string \<times> string) list \<times> fact list \<times> (string \<times> string) list)" where
  "retrieve E query topic =
     (case fst (hybrid_retrieve E query topic) of
        Inl e \<Rightarrow> Inl e
      | Inr (chunks, kg_facts) \<Rightarrow>
          Inr (map (\<lambda>(cid, txt). (replace ''Chunk::'' [] cid, txt)) chunks,
               kg_facts,
               map (\<lambda>(cid, txt). (replace ''Chunk::'' [] cid, take 400 txt)) chunks))"

section \<open>Evidence prompt\<close>

text \<open>\<open>grouped.setdefault(rel, []).append(label)\<close> on a dict, which keeps insertion order.\<close>

fun setdefault_append ::
  "(string \<times> 'a list) list \<Rightarrow> string \<Rightarrow> 'a \<Rightarrow> (string \<times> 'a list) list" where
  "setdefault_append [] rel v = [(rel, [v])]"
| "setdefault_append ((k, vs) # rest) rel v =
     (if k = rel then (k, vs @ [v]) # rest else (k, vs) # setdefault_append rest rel v)"

definition group_facts :: "fact list \<Rightarrow> (string \<times> string option list) list" where
  "group_facts kg_facts = foldl (\<lambda>g f. setdefault_append g (relation f) (label f)) [] kg_facts"

text \<open>\<open>", ".join(items)\<close> raises \<open>TypeError\<close> when an item is \<open>None\<close>.\<close>

definition join_labels :: "string option list \<Rightarrow> error + string" where
  "join_labels items =
     (if None \<in> set items then Inl TypeError else Inr (join '', '' (map the items)))"

definition kg_line ::
  "(string option list \<Rightarrow> string option list) \<Rightarrow> string \<times> string option list \<Rightarrow> error + string" where
  "kg_line set_list g =
     (case join_labels (set_list (snd g)) of
        Inl e \<Rightarrow> Inl e
      | Inr joined \<Rightarrow> Inr (fst g @ '': '' @ joined))"

definition chunk_line :: "string \<times> string \<Rightarrow> string" where
  "chunk_line c = ''['' @ fst c @ '']: '' @ take 1200 (snd c)"

definition build_prompt ::
  "(string option list \<Rightarrow> string option list) \<Rightarrow> string \<Rightarrow> (string \<times> string) list \<Rightarrow>
     fact list \<Rightarrow> error + string" where
  "build_prompt set_list question chunks kg_facts =
     (case sequence_err (map (kg_line set_list) (group_facts kg_facts)) of
        Inl e \<Rightarrow> Inl e
      | Inr kg_section \<Rightarrow>
          Inr (NL @ ''You are an RBI regulatory assistant.'' @ NL
               @ NL
               @ ''User question:'' @ NL
               @ question @ NL
               @ NL
               @ ''================ KG INFO ================'' @ NL
               @ join NL kg_section @ NL
               @ NL
               @ ''================ DOCUMENT EXCERPTS ================'' @ NL
               @ join (NL @ NL) (map chunk_line chunks) @ NL
               @ NL
               @ ''================ INSTRUCTIONS ================'' @ NL
               @ ''Answer STRICTLY using the above KG + document context.'' @ NL
               @ ''Do NOT hallucinate.'' @ NL
               @ ''If information is missing, respond:'' @ NL
               @ DQ @ ''I cannot find this information in the RBI documents.'' @ DQ @ NL))"

section \<open>Conversation memory\<close>

type_synonym memory = "string \<rightharpoonup> string"

definition get_last_reply :: "memory \<Rightarrow> string \<Rightarrow> string" where
  "get_last_reply conversation_memory cid =
     (case conversation_memory cid of None \<Rightarrow> [] | Some reply \<Rightarrow> reply)"

definition set_last_reply :: "memory \<Rightarrow> string \<Rightarrow> string \<Rightarrow> memory" where
  "set_last_reply conversation_memory cid reply = conversation_memory(cid \<mapsto> reply)"

definition clear_conversation :: "memory \<Rightarrow> string \<Rightarrow> memory" where
  "clear_conversation conversation_memory cid = conversation_memory(cid := None)"

section \<open>Language-model calls\<close>

text \<open>\<open>r.choices[0].message.content.strip()\<close>: a \<open>None\<close> content has no \<open>strip\<close>.\<close>

definition content_strip :: "error + string option \<Rightarrow> error + string" where
  "content_strip r =
     (case r of
        Inl e \<Rightarrow> Inl e
      | Inr None \<Rightarrow> Inl AttributeError
      | Inr (Some content) \<Rightarrow> Inr (strip content))"

definition rewrite_followup :: "env \<Rightarrow> string \<Rightarrow> string \<Rightarrow> error + string" where
  "rewrite_followup E prev q =
     content_strip
       (llm_chat E
          (NL @ ''Rewrite this follow-up into a complete RBI regulatory question.'' @ NL
           @ NL
           @ ''PREVIOUS ANSWER:'' @ NL
           @ prev @ NL
           @ NL
           @ ''FOLLOW-UP:'' @ NL
           @ q @ NL
           @ NL
           @ ''Return ONLY the rewritten question.'' @ NL)
          0 80)"

definition call_llm :: "env \<Rightarrow> string \<Rightarrow> rat \<Rightarrow> error + string" where
  "call_llm E prompt temp = content_strip (llm_chat E prompt temp 600)"

section \<open>Topic and intent\<close>

definition TOPIC_KEYWORDS :: "(string \<times> string list) list" where
  "TOPIC_KEYWORDS =
     [(''DLG_Cap'', [''dlg'', ''fldg'', ''first loss'']),
      (''Gold_Loan_LTV'', [''gold'', ''ltv'']),
      (''ECL_Overview'', [''ecl'', ''expected credit'']),
      (''KYC_Process'', [''kyc'']),
      (''AML_Compliance'', [''aml'']),
      (''Model_Governance_Framework'', [''model governance''])]"

fun first_topic :: "(string \<times> string list) list \<Rightarrow> string \<Rightarrow> string" where
  "first_topic [] ql = ''DLG_Cap''"
| "first_topic ((t, kws) # rest) ql =
     (if list_ex (\<lambda>k. sublist k ql) kws then t else first_topic rest ql)"

definition detect_topic_fallback :: "string \<Rightarrow> string" where
  "detect_topic_fallback q = first_topic TOPIC_KEYWORDS (lower q)"

text \<open>
  \<open>re.search(r"\{.*\}", raw, re.DOTALL)\<close>: the match starts at the first \<open>{\<close> and, the
  star being greedy and the dot matching every character, ends at the last \<open>}\<close> after
  it; there is no match when no \<open>}\<close> follows the first \<open>{\<close>.
\<close>

definition search_braces :: "string \<Rightarrow> string option" where
  "search_braces raw =
     (case dropWhile (\<lambda>c. c \<noteq> CHR ''{'') raw of
        [] \<Rightarrow> None
      | c # body \<Rightarrow>
          (if CHR ''}'' \<in> set body
           then Some (c # rev (dropWhile (\<lambda>c. c \<noteq> CHR ''}'') (rev body)))
           else None))"

definition intent_prompt :: "string \<Rightarrow> string" where
  "intent_prompt q =
     NL @ ''Return ONLY valid JSON:'' @ NL
     @ ''{'' @ DQ @ ''intent'' @ DQ @ '':'' @ DQ @ ''chit_chat'' @ DQ @ '','' @ DQ @ ''topic'' @ DQ
     @ '':null} OR {'' @ DQ @ ''intent'' @ DQ @ '':'' @ DQ @ ''rbi_query'' @ DQ @ '','' @ DQ
     @ ''topic'' @ DQ @ '':'' @ DQ @ ''DLG_Cap'' @ DQ @ ''}'' @ NL
     @ NL
     @ ''User message:'' @ NL
     @ q @ NL"

text \<open>
  \<open>llm_intent\<close>. Every exception of the \<open>try\<close> block (the call, the decoding, the
  lookups) is caught by \<open>except Exception\<close> and leads to the last \<open>return\<close>, as a
  response without a match does.
\<close>

definition llm_intent :: "env \<Rightarrow> string \<Rightarrow> pyval \<times> pyval" where
  "llm_intent E q =
     (let ql = strip (lower q) in
      if ql \<in> set [''hi'', ''hello'', ''hey'', ''hii'']
         \<or> list_ex (\<lambda>g. prefix g ql) [''hi '', ''hello '', ''hey '']
      then (PStr ''chit_chat'', PNone)
      else if list_ex (\<lambda>k. sublist k ql)
                [''rbi'', ''loan'', ''dlg'', ''fldg'', ''cap'', ''ltv'', ''kyc'', ''ecl'']
      then (PStr ''rbi_query'', PStr (detect_topic_fallback q))
      else
        (case llm_chat E (intent_prompt q) 0 30 of
           Inl e \<Rightarrow> (PStr ''rbi_query'', PStr (detect_topic_fallback q))
         | Inr content \<Rightarrow>
             (case search_braces (strip (case content of None \<Rightarrow> [] | Some c \<Rightarrow> c)) of
                None \<Rightarrow> (PStr ''rbi_query'', PStr (detect_topic_fallback q))
              | Some m \<Rightarrow>
                  (case json_loads E m of
                     Inl e \<Rightarrow> (PStr ''rbi_query'', PStr (detect_topic_fallback q))
                   | Inr data \<Rightarrow>
                       ((case data ''intent'' of None \<Rightarrow> PStr ''rbi_query'' | Some v \<Rightarrow> v),
                        (case data ''topic'' of None \<Rightarrow> PNone | Some v \<Rightarrow> v))))))"

section \<open>The ask operation\<close>

record ask_request =
  question :: string
  conversation_id :: "string option"
  clear :: "bool option"

record ask_response =
  response_conversation_id :: string
  answer :: string
  chunks_used :: "(string \<times> string) list"
  kg_facts :: "fact list"

definition NOT_FOUND :: string where
  "NOT_FOUND = ''I cannot find this information in the provided RBI documents.''"

definition build_llm_prompt ::
  "env \<Rightarrow> string \<Rightarrow> (string \<times> string) list \<Rightarrow> fact list \<Rightarrow> string \<Rightarrow> error + string" where
  "build_llm_prompt E q chunks facts prev =
     (case build_prompt (label_set_list E) q chunks facts of
        Inl e \<Rightarrow> Inl e
      | Inr body \<Rightarrow>
          Inr (NL @ ''SYSTEM:'' @ NL
               @ ''You are an RBI regulatory assistant.'' @ NL
               @ ''Use ONLY the provided context.'' @ NL
               @ ''If info is missing say so.'' @ NL
               @ NL
               @ ''PREVIOUS ANSWER:'' @ NL
               @ (if prev = [] then ''(none)'' else prev) @ NL
               @ NL
               @ body @ NL
               @ NL
               @ ''TASK:'' @ NL
               @ ''Answer precisely.'' @ NL))"

text \<open>
  \<open>ask\<close> returns the response, or the exception that leaves the handler, together with
  the conversation memory as the request leaves it.
\<close>

definition ask :: "env \<Rightarrow> memory \<Rightarrow> ask_request \<Rightarrow> (error + ask_response) \<times> memory" where
  "ask E mem req =
     (if strip (question req) = [] then (Inl (HTTPException 400 ''Empty question''), mem)
      else
        let cid = (case conversation_id req of
                     None \<Rightarrow> uuid4 E
                   | Some c \<Rightarrow> if c = [] then uuid4 E else c);
            mem1 = (if clear req = Some True then clear_conversation mem cid else mem);
            q = strip (question req);
            prev = get_last_reply mem1 cid;
            it = llm_intent E q
        in if fst it = PStr ''chit_chat'' then
             (case call_llm E (''You are friendly. Reply briefly to: '' @ q) (7 / 10) of
                Inl e \<Rightarrow> (Inl e, mem1)
              | Inr reply \<Rightarrow>
                  (Inr \<lparr>response_conversation_id = cid, answer = reply,
                        chunks_used = [], kg_facts = []\<rparr>,
                   set_last_reply mem1 cid reply))
           else
             (case is_followup (cos_sim E) prev q of
                Inl e \<Rightarrow> (Inl e, mem1)
              | Inr fu \<Rightarrow>
                  (case (if fu then rewrite_followup E prev q else Inr q) of
                     Inl e \<Rightarrow> (Inl e, mem1)
                   | Inr q' \<Rightarrow>
                       (case retrieve E q' (snd it) of
                          Inl e \<Rightarrow> (Inl e, mem1)
                        | Inr (chunks, facts, used) \<Rightarrow>
                            if chunks = [] \<and> facts = [] then
                              (Inr \<lparr>response_conversation_id = cid, answer = NOT_FOUND,
                                    chunks_used = [], kg_facts = []\<rparr>,
                               set_last_reply mem1 cid NOT_FOUND)
                            else
                              (case build_llm_prompt E q' chunks facts prev of
                                 Inl e \<Rightarrow> (Inl e, mem1)
                               | Inr prompt \<Rightarrow>
                                   (case call_llm E prompt 0 of
                                      Inl e \<Rightarrow> (Inl e, mem1)
                                    | Inr reply \<Rightarrow>
                                        (Inr \<lparr>response_conversation_id = cid, answer = reply,
                                              chunks_used = used, kg_facts = facts\<rparr>,
                                         set_last_reply mem1 cid reply)))))))"

section \<open>Concrete environments\<close>

text \<open>
  A small deployment on which the functions are run: two fragments in the corpus, a
  topic linked to a chunk, a clause and a node of another kind, and a vector search that
  returns both fragments.
\<close>

definition example_env :: env where
  "example_env =
     \<lparr>llm_chat = (\<lambda>prompt temp max_tokens. Inl (LLMError ''unreachable'')),
      json_loads = (\<lambda>s. Inl JSONDecodeError),
      cos_sim = (\<lambda>a b. Inr 0.9),
      graph_nodes = (\<lambda>tj. if tj = topic_json (PStr ''DLG_Cap'')
                          then Inr [Some ''Chunk::doc_0'', None, Some ''Clause::doc_1'',
                                    Some ''Topic::DLG_Cap'']
                          else Inr []),
      graph_facts = (\<lambda>ids. Inr (map (\<lambda>i. \<lparr>source = i, relation = ''partOf'',
                                             target = Some ''Regulation::doc'',
                                             label = Some ''doc''\<rparr>) ids)),
      topk = (\<lambda>query k. Inr [1, 0]),
      id2text = [''doc_0'' \<mapsto> ''Text zero'', ''doc_2'' \<mapsto> ''Text two''],
      all_ids = [''doc_0'', ''doc_2''],
      uuid4 = ''00000000-0000-4000-8000-000000000000'',
      id_set_list = remdups,
      label_set_list = remdups\<rparr>"


definition env_empty :: env where
  "env_empty = example_env\<lparr>graph_nodes := (\<lambda>tj. Inr []), topk := (\<lambda>query k. Inr [])\<rparr>"

definition env_unprefixed :: env where
  "env_unprefixed = example_env\<lparr>graph_nodes := (\<lambda>tj. Inr [Some ''doc_2''])\<rparr>"

text \<open>
  Two language models that answer the intent prompt with a JSON object, one with a
  \<open>null\<close> topic and one without the \<open>topic\<close> key; \<open>json_loads\<close> decodes exactly that
  answer.
\<close>

definition env_llm_null_topic :: env where
  "env_llm_null_topic =
     example_env
       \<lparr>llm_chat := (\<lambda>prompt temp max_tokens.
           Inr (Some (''{'' @ DQ @ ''intent'' @ DQ @ '':'' @ DQ @ ''rbi_query'' @ DQ @ '',''
                      @ DQ @ ''topic'' @ DQ @ '':null}''))),
        json_loads := (\<lambda>s.
           if s = ''{'' @ DQ @ ''intent'' @ DQ @ '':'' @ DQ @ ''rbi_query'' @ DQ @ '',''
                  @ DQ @ ''topic'' @ DQ @ '':null}''
           then Inr [''intent'' \<mapsto> PStr ''rbi_query'', ''topic'' \<mapsto> PNone]
           else Inl JSONDecodeError)\<rparr>"

definition env_llm_omits_topic :: env where
  "env_llm_omits_topic =
     example_env
       \<lparr>llm_chat := (\<lambda>prompt temp max_tokens.
           Inr (Some (''{'' @ DQ @ ''intent'' @ DQ @ '':'' @ DQ @ ''rbi_query'' @ DQ @ ''}''))),
        json_loads := (\<lambda>s.
           if s = ''{'' @ DQ @ ''intent'' @ DQ @ '':'' @ DQ @ ''rbi_query'' @ DQ @ ''}''
           then Inr [''intent'' \<mapsto> PStr ''rbi_query'']
           else Inl JSONDecodeError)\<rparr>"

text \<open>A request, a memory holding an earlier answer, and two lists of facts.\<close>

definition request_dlg :: ask_request where
  "request_dlg = \<lparr>question = ''  what is the dlg cap?  '', conversation_id = Some ''conv-1'',
                   clear = None\<rparr>"

definition memory_old :: memory where
  "memory_old = [''conv-1'' \<mapsto> ''Old answer'']"

text \<open>
  A second enumeration of a set, as another hash seed may give it: the elements in the
  opposite order.
\<close>

definition rev_set_list :: "'a list \<Rightarrow> 'a list" where
  "rev_set_list xs = rev (remdups xs)"

definition facts_two_labels :: "fact list" where
  "facts_two_labels =
     [\<lparr>source = ''Chunk::doc_0'', relation = ''appliesTo'', target = Some ''Actor::Bank'',
       label = Some ''Bank''\<rparr>,
      \<lparr>source = ''Chunk::doc_0'', relation = ''appliesTo'', target = Some ''Actor::Nbfc'',
       label = Some ''NBFC''\<rparr>]"

definition facts_one_label :: "fact list" where
  "facts_one_label =
     [\<lparr>source = ''Chunk::doc_0'', relation = ''partOf'', target = Some ''Regulation::doc'',
       label = Some ''doc''\<rparr>,
      \<lparr>source = ''Chunk::doc_1'', relation = ''partOf'', target = Some ''Regulation::doc'',
       label = Some ''doc''\<rparr>,
      \<lparr>source = ''Chunk::doc_0'', relation = ''appliesTo'', target = Some ''Actor::Bank'',
       label = Some ''Bank''\<rparr>]"

text \<open>
  \<open>without_node E nid\<close> is \<open>E\<close> with a graph that does not return the identifier \<open>nid\<close>
  from the topic query.
\<close>

definition without_node :: "env \<Rightarrow> string \<Rightarrow> env" where
  "without_node E nid =
     E\<lparr>graph_nodes := (\<lambda>tj. case graph_nodes E tj of
                               Inl e \<Rightarrow> Inl e
                             | Inr nodes \<Rightarrow> Inr (filter (\<lambda>n. n \<noteq> Some nid) nodes))\<rparr>"

section \<open>Properties of follow-up detection\<close>

text \<open>
  C4. \<open>is_followup\<close> returns false when the previous answer is empty; otherwise it
  returns true when the lower-cased, trimmed question contains one of the follow-up
  phrases; otherwise, for a question of at most 4 whitespace-separated tokens, it
  returns true exactly when the cosine similarity between previous answer and question
  exceeds 0.55; and for a longer question it returns false whatever the similarity.
\<close>

theorem is_followup_decision:
  "(prev = [] \<longrightarrow> is_followup sim prev q = Inr False)
   \<and> (prev \<noteq> [] \<and> (\<exists>p \<in> set FOLLOWUP_PATTERNS. sublist p (strip (lower q)))
        \<longrightarrow> is_followup sim prev q = Inr True)
   \<and> (prev \<noteq> [] \<and> \<not> (\<exists>p \<in> set FOLLOWUP_PATTERNS. sublist p (strip (lower q)))
        \<and> length (split q) \<le> 4 \<and> sim prev q = Inr s
        \<longrightarrow> is_followup sim prev q = Inr (s > 0.55))
   \<and> (prev \<noteq> [] \<and> \<not> (\<exists>p \<in> set FOLLOWUP_PATTERNS. sublist p (strip (lower q)))
        \<and> length (split q) > 4
        \<longrightarrow> is_followup sim prev q = Inr False)"
  by (simp add: is_followup_def list_ex_iff)


theorem is_followup_decision_witness:
  "is_followup (\<lambda>a b. Inr 0.9) [] ''what about gold'' = Inr False
   \<and> is_followup (\<lambda>a b. Inr 0.9) ''The cap is five percent.'' ''please clarify'' = Inr True
   \<and> is_followup (\<lambda>a b. Inr 0.9) ''The cap is five percent.'' ''what about gold'' = Inr True
   \<and> is_followup (\<lambda>a b. Inr 0.3) ''The cap is five percent.'' ''what about gold'' = Inr False
   \<and> is_followup (\<lambda>a b. Inr 0.9) ''The cap is five percent.''
        ''what is the maximum loan to value ratio for gold'' = Inr False"
proof -
  let ?prev = "''The cap is five percent.''"
  let ?long = "''what is the maximum loan to value ratio for gold''"
  have a: "([]::string) = []" by simp
  have b: "?prev \<noteq> [] \<and> (\<exists>p \<in> set FOLLOWUP_PATTERNS. sublist p (strip (lower ''please clarify'')))"
    by code_simp
  have c: "?prev \<noteq> []
      \<and> \<not> (\<exists>p \<in> set FOLLOWUP_PATTERNS. sublist p (strip (lower ''what about gold'')))
      \<and> length (split ''what about gold'') \<le> 4 \<and> (\<lambda>a b. Inr 0.9 :: error + real) ?prev ''what about gold'' = Inr 0.9"
    by code_simp
  have d: "?prev \<noteq> []
      \<and> \<not> (\<exists>p \<in> set FOLLOWUP_PATTERNS. sublist p (strip (lower ''what about gold'')))
      \<and> length (split ''what about gold'') \<le> 4 \<and> (\<lambda>a b. Inr 0.3 :: error + real) ?prev ''what about gold'' = Inr 0.3"
    by code_simp
  have e: "?prev \<noteq> []
      \<and> \<not> (\<exists>p \<in> set FOLLOWUP_PATTERNS. sublist p (strip (lower ?long)))
      \<and> length (split ?long) > 4"
    by code_simp
  note t = is_followup_decision
  from a t[where prev = "[]" and sim = "\<lambda>a b. Inr 0.9" and q = "''what about gold''"]
  have 1: "is_followup (\<lambda>a b. Inr 0.9) [] ''what about gold'' = Inr False" by blast
  from b t[where prev = ?prev and sim = "\<lambda>a b. Inr 0.9" and q = "''please clarify''"]
  have 2: "is_followup (\<lambda>a b. Inr 0.9) ?prev ''please clarify'' = Inr True" by blast
  from c t[where prev = ?prev and sim = "\<lambda>a b. Inr 0.9" and q = "''what about gold''" and s = "0.9"]
  have 3: "is_followup (\<lambda>a b. Inr 0.9) ?prev ''what about gold'' = Inr ((0.9::real) > 0.55)" by blast
  from d t[where prev = ?prev and sim = "\<lambda>a b. Inr 0.3" and q = "''what about gold''" and s = "0.3"]
  have 4: "is_followup (\<lambda>a b. Inr 0.3) ?prev ''what about gold'' = Inr ((0.3::real) > 0.55)" by blast
  from e t[where prev = ?prev and sim = "\<lambda>a b. Inr 0.9" and q = ?long]
  have 5: "is_followup (\<lambda>a b. Inr 0.9) ?prev ?long = Inr False" by blast
  from 1 2 3 4 5 show ?thesis by simp
qed

subsection \<open>Phrases are matched as substrings\<close>

lemma sublist_dropWhile:
  assumes "sublist p s" and "p \<noteq> []" and "\<not> P (hd p)"
  shows "sublist p (dropWhile P s)"
proof -
  from assms(1) obtain ps ss where s: "s = ps @ p @ ss"
    by (auto simp: sublist_def)
  have "sublist p (dropWhile P (ps @ p @ ss))"
  proof (induction ps)
    case Nil
    from assms(2,3) have "dropWhile P (p @ ss) = p @ ss"
      by (cases p) auto
    then show ?case by simp
  next
    case (Cons a ps)
    show ?case
    proof (cases "P a")
      case True
      with Cons show ?thesis by simp
    next
      case False
      then have "dropWhile P ((a # ps) @ p @ ss) = (a # ps) @ p @ ss" by simp
      then show ?thesis by (metis sublist_appendI)
    qed
  qed
  with s show ?thesis by simp
qed

lemma sublist_rev_iff: "sublist (rev p) (rev s) = sublist p s"
proof -
  have "sublist (rev p) (rev s)" if "sublist p s" for p s :: "'a list"
  proof -
    from that obtain ps ss where "s = ps @ p @ ss" by (auto simp: sublist_def)
    then have "rev s = rev ss @ rev p @ rev ps" by simp
    then show ?thesis unfolding sublist_def by blast
  qed
  from this[of p s] this[of "rev p" "rev s"] show ?thesis by auto
qed

lemma sublist_strip:
  assumes "sublist p s" and "p \<noteq> []" and "\<not> isspace (hd p)" and "\<not> isspace (last p)"
  shows "sublist p (strip s)"
proof -
  have "sublist p (dropWhile isspace s)"
    using assms(1,2,3) by (rule sublist_dropWhile)
  then have "sublist (rev p) (rev (dropWhile isspace s))"
    by (simp add: sublist_rev_iff)
  moreover have "rev p \<noteq> []" using assms(2) by simp
  moreover have "\<not> isspace (hd (rev p))" using assms(2,4) by (simp add: hd_rev)
  ultimately have "sublist (rev p) (dropWhile isspace (rev (dropWhile isspace s)))"
    by (rule sublist_dropWhile)
  then show ?thesis
    unfolding strip_def by (metis sublist_rev_iff rev_rev_ident)
qed

lemma followup_patterns_edges:
  "p \<in> set FOLLOWUP_PATTERNS \<Longrightarrow> p \<noteq> [] \<and> \<not> isspace (hd p) \<and> \<not> isspace (last p)"
  by (auto simp: FOLLOWUP_PATTERNS_def isspace_def)

text \<open>
  C9. The follow-up phrases are matched as raw substrings of the lower-cased question:
  with a non-empty previous answer, a question whose lower-cased text contains a phrase
  anywhere, also inside a longer word, is a follow-up at once, whatever its number of
  tokens and without the similarity being consulted (the result does not depend on
  \<open>sim\<close>, not even on whether it raises).
\<close>

theorem followup_phrase_is_substring_match:
  assumes "prev \<noteq> []" and "p \<in> set FOLLOWUP_PATTERNS" and "sublist p (lower q)"
  shows "is_followup sim prev q = Inr True"
proof -
  from followup_patterns_edges[OF assms(2)] assms(3)
  have "sublist p (strip (lower q))" by (simp add: sublist_strip)
  with assms(2) have "list_ex (\<lambda>p. sublist p (strip (lower q))) FOLLOWUP_PATTERNS"
    unfolding list_ex_iff by blast
  with assms(1) show ?thesis by (simp add: is_followup_def)
qed

theorem followup_phrase_is_substring_match_witness:
  "is_followup (\<lambda>a b. Inl (EmbeddingError ''unavailable'')) ''The cap is five percent.''
     ''What is the rule AGAINST charging fees beyond the cap'' = Inr True"
proof -
  have 1: "''The cap is five percent.'' \<noteq> []" by simp
  have 2: "''again'' \<in> set FOLLOWUP_PATTERNS" by (simp add: FOLLOWUP_PATTERNS_def)
  have 3: "sublist ''again'' (lower ''What is the rule AGAINST charging fees beyond the cap'')"
    by code_simp
  show ?thesis by (rule followup_phrase_is_substring_match[OF 1 2 3])
qed

section \<open>Properties of graph expansion\<close>

text \<open>
  C7. \<open>get_kg_facts\<close> on an empty list of identifiers returns the empty list and sends
  no query to the graph collaborator.
\<close>

theorem get_kg_facts_empty_no_query:
  "get_kg_facts E [] = (Inr [], [])"
  by (simp add: get_kg_facts_def)

section \<open>Properties of hybrid retrieval\<close>

lemma set_list_ok_remdups: "set_list_ok remdups"
  by (simp add: set_list_ok_def)

lemma get_topic_related_nodes_Inr:
  "graph_nodes E (topic_json t) = Inr nodes \<Longrightarrow>
   get_topic_related_nodes E t = (Inr (truthy_ids nodes), [TopicQuery (topic_json t)])"
  by (simp add: get_topic_related_nodes_def)

lemma get_topic_related_nodes_Inl:
  "graph_nodes E (topic_json t) = Inl e \<Longrightarrow>
   get_topic_related_nodes E t = (Inl e, [TopicQuery (topic_json t)])"
  by (simp add: get_topic_related_nodes_def)

lemma hybrid_retrieve_unfold:
  assumes g: "graph_nodes E (topic_json t) = Inr nodes"
      and r: "rag_search E q 5 = Inr rag"
      and m: "merged = id_set_list E (normalize_kg (truthy_ids nodes) @ map fst rag)"
  shows "hybrid_retrieve E q t =
     (if merged = [] then (Inr ([], []), [TopicQuery (topic_json t)])
      else (case graph_facts E (map (\<lambda>cid. ''Chunk::'' @ cid) merged) of
              Inl e \<Rightarrow> Inl e
            | Inr fs \<Rightarrow> Inr (map (\<lambda>cid. (cid, text_of E cid)) merged, fs),
            [TopicQuery (topic_json t), FactsQuery (map (\<lambda>cid. ''Chunk::'' @ cid) merged)]))"
proof -
  define ids where "ids = map (\<lambda>cid. ''Chunk::'' @ cid) merged"
  have e: "(ids = []) = (merged = [])" by (simp add: ids_def)
  have "hybrid_retrieve E q t =
     (case get_kg_facts E ids of
        (Inl e, log2) \<Rightarrow> (Inl e, [TopicQuery (topic_json t)] @ log2)
      | (Inr fs, log2) \<Rightarrow>
          (Inr (map (\<lambda>cid. (cid, text_of E cid)) merged, fs), [TopicQuery (topic_json t)] @ log2))"
    unfolding hybrid_retrieve_def get_topic_related_nodes_Inr[OF g] ids_def m
    by (simp add: r Let_def del: append.simps)
  also have "\<dots> =
     (if merged = [] then (Inr ([], []), [TopicQuery (topic_json t)])
      else (case graph_facts E ids of
              Inl e \<Rightarrow> Inl e
            | Inr fs \<Rightarrow> Inr (map (\<lambda>cid. (cid, text_of E cid)) merged, fs),
            [TopicQuery (topic_json t), FactsQuery ids]))"
    by (cases "graph_facts E ids") (auto simp: get_kg_facts_def e)
  finally show ?thesis unfolding ids_def .
qed

text \<open>
  C5. When graph expansion and vector search both answer, \<open>hybrid_retrieve\<close> works on the
  deduplicated union of the graph-derived fragment identifiers (prefix removed) and the
  vector-search identifiers: the merged list has no duplicates, its elements are
  exactly the two sources' identifiers, the facts are those fetched for it, and the
  fragments returned are its elements. When both sources are empty the result is the
  empty fragment list with the empty fact list, and only the topic query was sent.
\<close>

theorem hybrid_retrieve_set_union:
  assumes ok: "set_list_ok (id_set_list E)"
      and g: "graph_nodes E (topic_json t) = Inr nodes"
      and r: "rag_search E q 5 = Inr rag"
  shows "\<exists>merged. distinct merged
           \<and> set merged = set (normalize_kg (truthy_ids nodes)) \<union> set (map fst rag)
           \<and> fst (hybrid_retrieve E q t) =
               (case fst (get_kg_facts E (map (\<lambda>cid. ''Chunk::'' @ cid) merged)) of
                  Inl e \<Rightarrow> Inl e
                | Inr fs \<Rightarrow> Inr (map (\<lambda>cid. (cid, text_of E cid)) merged, fs))
           \<and> (normalize_kg (truthy_ids nodes) = [] \<and> rag = []
                \<longrightarrow> hybrid_retrieve E q t = (Inr ([], []), [TopicQuery (topic_json t)]))"
proof -
  define merged where "merged = id_set_list E (normalize_kg (truthy_ids nodes) @ map fst rag)"
  define ids where "ids = map (\<lambda>cid. ''Chunk::'' @ cid) merged"
  from ok have d: "distinct merged"
    and s: "set merged = set (normalize_kg (truthy_ids nodes)) \<union> set (map fst rag)"
    by (simp_all add: merged_def set_list_ok_def)
  note u = hybrid_retrieve_unfold[OF g r merged_def, folded ids_def]
  have e: "(ids = []) = (merged = [])" by (simp add: ids_def)
  have "fst (hybrid_retrieve E q t) =
          (case fst (get_kg_facts E ids) of
             Inl e \<Rightarrow> Inl e
           | Inr fs \<Rightarrow> Inr (map (\<lambda>cid. (cid, text_of E cid)) merged, fs))"
    by (cases "merged = []") (simp_all add: u get_kg_facts_def e)
  moreover have "hybrid_retrieve E q t = (Inr ([], []), [TopicQuery (topic_json t)])"
    if "normalize_kg (truthy_ids nodes) = [] \<and> rag = []"
  proof -
    from that s have "merged = []" by simp
    then show ?thesis by (simp add: u)
  qed
  ultimately show ?thesis using d s unfolding ids_def by blast
qed

theorem hybrid_retrieve_set_union_witness:
  "(\<exists>merged. distinct merged
      \<and> set merged = {''doc_0'', ''doc_1'', ''doc_2''}
      \<and> fst (hybrid_retrieve example_env ''what is the dlg cap'' (PStr ''DLG_Cap'')) =
          (case fst (get_kg_facts example_env (map (\<lambda>cid. ''Chunk::'' @ cid) merged)) of
             Inl e \<Rightarrow> Inl e
           | Inr fs \<Rightarrow> Inr (map (\<lambda>cid. (cid, text_of example_env cid)) merged, fs)))
   \<and> hybrid_retrieve env_empty ''what is the dlg cap'' (PStr ''DLG_Cap'') =
       (Inr ([], []), [TopicQuery (topic_json (PStr ''DLG_Cap''))])"
proof -
  let ?q = "''what is the dlg cap''" and ?t = "PStr ''DLG_Cap''"
  let ?nodes = "[Some ''Chunk::doc_0'', None, Some ''Clause::doc_1'', Some ''Topic::DLG_Cap'']"
  let ?rag = "[(''doc_2'', ''Text two''), (''doc_0'', ''Text zero'')]"
  have ok: "set_list_ok (id_set_list example_env)"
    by (simp add: example_env_def set_list_ok_remdups)
  have g: "graph_nodes example_env (topic_json ?t) = Inr ?nodes" by code_simp
  have r: "rag_search example_env ?q 5 = Inr ?rag" by code_simp
  have s: "set (normalize_kg (truthy_ids ?nodes)) \<union> set (map fst ?rag)
             = {''doc_0'', ''doc_1'', ''doc_2''}" by code_simp
  have ok': "set_list_ok (id_set_list env_empty)"
    by (simp add: env_empty_def example_env_def set_list_ok_remdups)
  have g': "graph_nodes env_empty (topic_json ?t) = Inr []" by code_simp
  have r': "rag_search env_empty ?q 5 = Inr []" by code_simp
  have n': "normalize_kg (truthy_ids []) = [] \<and> ([] :: (string \<times> string) list) = []" by code_simp
  from hybrid_retrieve_set_union[OF ok g r] s
  have 1: "\<exists>merged. distinct merged
      \<and> set merged = {''doc_0'', ''doc_1'', ''doc_2''}
      \<and> fst (hybrid_retrieve example_env ?q ?t) =
          (case fst (get_kg_facts example_env (map (\<lambda>cid. ''Chunk::'' @ cid) merged)) of
             Inl e \<Rightarrow> Inl e
           | Inr fs \<Rightarrow> Inr (map (\<lambda>cid. (cid, text_of example_env cid)) merged, fs))"
    by auto
  from hybrid_retrieve_set_union[OF ok' g' r'] n'
  have 2: "hybrid_retrieve env_empty ?q ?t = (Inr ([], []), [TopicQuery (topic_json ?t)])"
    by blast
  from 1 2 show ?thesis by (rule conjI)
qed

text \<open>
  C6. Every identifier of the merged candidate set is returned with exactly one
  fragment text: the text of the in-memory map, or the empty string when the map has
  no entry for it. A missing entry raises nothing: whenever the three collaborator
  calls answer, \<open>hybrid_retrieve\<close> returns.
\<close>

theorem hybrid_retrieve_resolves_every_id:
  assumes ok: "set_list_ok (id_set_list E)"
      and g: "graph_nodes E (topic_json t) = Inr nodes"
      and r: "rag_search E q 5 = Inr rag"
      and f: "fst (get_kg_facts E (map (\<lambda>cid. ''Chunk::'' @ cid)
                (id_set_list E (normalize_kg (truthy_ids nodes) @ map fst rag)))) = Inr fs"
  shows "\<exists>chunks. fst (hybrid_retrieve E q t) = Inr (chunks, fs)
           \<and> set (map fst chunks) = set (normalize_kg (truthy_ids nodes)) \<union> set (map fst rag)
           \<and> (\<forall>cid \<in> set (map fst chunks). \<exists>!txt. (cid, txt) \<in> set chunks)
           \<and> (\<forall>(cid, txt) \<in> set chunks.
                 txt = (case id2text E cid of None \<Rightarrow> [] | Some x \<Rightarrow> x))"
proof -
  define merged where "merged = id_set_list E (normalize_kg (truthy_ids nodes) @ map fst rag)"
  define ids where "ids = map (\<lambda>cid. ''Chunk::'' @ cid) merged"
  define chunks where "chunks = map (\<lambda>cid. (cid, text_of E cid)) merged"
  from ok have s: "set merged = set (normalize_kg (truthy_ids nodes)) \<union> set (map fst rag)"
    by (simp add: merged_def set_list_ok_def)
  note u = hybrid_retrieve_unfold[OF g r merged_def, folded ids_def chunks_def]
  have e: "(ids = []) = (merged = [])" by (simp add: ids_def)
  from f have f': "fst (get_kg_facts E ids) = Inr fs" by (simp add: ids_def merged_def)
  have 1: "fst (hybrid_retrieve E q t) = Inr (chunks, fs)"
  proof (cases "merged = []")
    case True
    with f' e have "fs = []" by (simp add: get_kg_facts_def)
    with True show ?thesis by (simp add: u chunks_def)
  next
    case False
    with f' e have "graph_facts E ids = Inr fs" by (simp add: get_kg_facts_def)
    with False show ?thesis by (simp add: u)
  qed
  have m: "map fst chunks = merged" by (simp add: chunks_def comp_def)
  have 2: "set (map fst chunks) = set (normalize_kg (truthy_ids nodes)) \<union> set (map fst rag)"
    by (simp only: m s)
  have 3: "\<forall>cid \<in> set (map fst chunks). \<exists>!txt. (cid, txt) \<in> set chunks"
    by (auto simp: chunks_def)
  have 4: "\<forall>(cid, txt) \<in> set chunks. txt = (case id2text E cid of None \<Rightarrow> [] | Some x \<Rightarrow> x)"
    by (auto simp: chunks_def text_of_def)
  from 1 2 3 4 show ?thesis by blast
qed

theorem hybrid_retrieve_resolves_every_id_witness:
  "\<exists>chunks fs. fst (hybrid_retrieve example_env ''what is the dlg cap'' (PStr ''DLG_Cap''))
                  = Inr (chunks, fs)
     \<and> set (map fst chunks) = {''doc_0'', ''doc_1'', ''doc_2''}
     \<and> (''doc_0'', ''Text zero'') \<in> set chunks
     \<and> (''doc_1'', []) \<in> set chunks
     \<and> id2text example_env ''doc_1'' = None"
proof -
  let ?q = "''what is the dlg cap''" and ?t = "PStr ''DLG_Cap''"
  let ?nodes = "[Some ''Chunk::doc_0'', None, Some ''Clause::doc_1'', Some ''Topic::DLG_Cap'']"
  let ?rag = "[(''doc_2'', ''Text two''), (''doc_0'', ''Text zero'')]"
  let ?fs = "map (\<lambda>i. \<lparr>source = i, relation = ''partOf'', target = Some ''Regulation::doc'',
                         label = Some ''doc''\<rparr>) [''Chunk::doc_1'', ''Chunk::doc_2'', ''Chunk::doc_0'']"
  have ok: "set_list_ok (id_set_list example_env)"
    by (simp add: example_env_def set_list_ok_remdups)
  have g: "graph_nodes example_env (topic_json ?t) = Inr ?nodes" by code_simp
  have r: "rag_search example_env ?q 5 = Inr ?rag" by code_simp
  have f: "fst (get_kg_facts example_env (map (\<lambda>cid. ''Chunk::'' @ cid)
             (id_set_list example_env (normalize_kg (truthy_ids ?nodes) @ map fst ?rag)))) = Inr ?fs"
    by code_simp
  have s: "set (normalize_kg (truthy_ids ?nodes)) \<union> set (map fst ?rag)
             = {''doc_0'', ''doc_1'', ''doc_2''}" by code_simp
  have t0: "id2text example_env ''doc_0'' = Some ''Text zero''" by code_simp
  have t1: "id2text example_env ''doc_1'' = None" by code_simp
  from hybrid_retrieve_resolves_every_id[OF ok g r f]
  obtain chunks where c: "fst (hybrid_retrieve example_env ?q ?t) = Inr (chunks, ?fs)"
    and u: "set (map fst chunks) = set (normalize_kg (truthy_ids ?nodes)) \<union> set (map fst ?rag)"
    and x: "\<forall>cid \<in> set (map fst chunks). \<exists>!txt. (cid, txt) \<in> set chunks"
    and v: "\<forall>(cid, txt) \<in> set chunks.
              txt = (case id2text example_env cid of None \<Rightarrow> [] | Some x \<Rightarrow> x)"
    by blast
  from u s have u': "set (map fst chunks) = {''doc_0'', ''doc_1'', ''doc_2''}" by simp
  then have "''doc_0'' \<in> set (map fst chunks)" and "''doc_1'' \<in> set (map fst chunks)"
    by simp_all
  with x obtain a b where a: "(''doc_0'', a) \<in> set chunks" and b: "(''doc_1'', b) \<in> set chunks"
    by blast
  from v a t0 have "a = ''Text zero''" by fastforce
  moreover from v b t1 have "b = []" by fastforce
  ultimately show ?thesis using c u' a b t1 by blast
qed




subsection \<open>Graph identifiers of another kind\<close>

lemma truthy_ids_filter:
  "truthy_ids (filter (\<lambda>n. n \<noteq> Some nid) nodes) = removeAll nid (truthy_ids nodes)"
  by (induction nodes rule: truthy_ids.induct) auto

lemma normalize_kg_removeAll:
  "normalize_one nid = [] \<Longrightarrow> normalize_kg (removeAll nid xs) = normalize_kg xs"
  by (induction xs) (auto simp: normalize_kg_def)

lemma normalize_one_unprefixed:
  "\<not> prefix ''Chunk::'' nid \<Longrightarrow> \<not> prefix ''Clause::'' nid \<Longrightarrow> normalize_one nid = []"
  by (simp add: normalize_one_def)

lemma rag_search_without_node: "rag_search (without_node E nid) q k = rag_search E q k"
proof -
  have rr: "rag_result (without_node E nid) = rag_result E"
    by (auto simp: rag_result_def without_node_def fun_eq_iff split: option.splits)
  have tk: "topk (without_node E nid) = topk E"
    by (simp add: without_node_def)
  show ?thesis unfolding rag_search_def rr tk ..
qed

lemma hybrid_retrieve_without_node:
  assumes "normalize_one nid = []"
  shows "hybrid_retrieve (without_node E nid) q t = hybrid_retrieve E q t"
proof (cases "graph_nodes E (topic_json t)")
  case (Inl e)
  then have "graph_nodes (without_node E nid) (topic_json t) = Inl e"
    by (simp add: without_node_def)
  with Inl show ?thesis
    by (simp add: hybrid_retrieve_def get_topic_related_nodes_Inl)
next
  case (Inr nodes)
  then have g': "graph_nodes (without_node E nid) (topic_json t)
                   = Inr (filter (\<lambda>n. n \<noteq> Some nid) nodes)"
    by (simp add: without_node_def)
  have n: "normalize_kg (truthy_ids (filter (\<lambda>n. n \<noteq> Some nid) nodes))
             = normalize_kg (truthy_ids nodes)"
    by (simp add: truthy_ids_filter normalize_kg_removeAll[OF assms])
  show ?thesis
  proof (cases "rag_search E q 5")
    case (Inl e)
    then show ?thesis
      by (simp add: hybrid_retrieve_def get_topic_related_nodes_Inr[OF Inr]
            get_topic_related_nodes_Inr[OF g'] rag_search_without_node)
  next
    case r: (Inr rag)
    then have r': "rag_search (without_node E nid) q 5 = Inr rag"
      by (simp add: rag_search_without_node)
    have i: "id_set_list (without_node E nid) = id_set_list E"
      and x: "text_of (without_node E nid) = text_of E"
      and f: "graph_facts (without_node E nid) = graph_facts E"
      by (simp_all add: without_node_def text_of_def fun_eq_iff)
    show ?thesis
      unfolding hybrid_retrieve_unfold[OF Inr r refl] hybrid_retrieve_unfold[OF g' r' refl]
      by (simp only: n i x f)
  qed
qed

text \<open>
  C10, as the code has it. A graph identifier that starts with neither \<open>Chunk::\<close> nor
  \<open>Clause::\<close> contributes nothing: \<open>hybrid_retrieve\<close> returns the same result and sends
  the same queries as if the graph had not returned it. Unless the vector search
  returns the same identifier, or it is the stripped form of a prefixed graph
  identifier, it is not among the fragments returned and no facts are fetched for it.
\<close>

theorem unprefixed_graph_id_discarded:
  assumes ok: "set_list_ok (id_set_list E)"
      and g: "graph_nodes E (topic_json t) = Inr nodes"
      and r: "rag_search E q 5 = Inr rag"
      and p: "\<not> prefix ''Chunk::'' nid" "\<not> prefix ''Clause::'' nid"
  shows "hybrid_retrieve (without_node E nid) q t = hybrid_retrieve E q t
     \<and> (nid \<notin> set (map fst rag) \<and> nid \<notin> set (normalize_kg (truthy_ids nodes)) \<longrightarrow>
          (\<forall>ids. FactsQuery ids \<in> set (snd (hybrid_retrieve E q t))
                   \<longrightarrow> ''Chunk::'' @ nid \<notin> set ids)
        \<and> (\<forall>chunks fs. fst (hybrid_retrieve E q t) = Inr (chunks, fs)
                   \<longrightarrow> nid \<notin> set (map fst chunks)))"
proof -
  define merged where "merged = id_set_list E (normalize_kg (truthy_ids nodes) @ map fst rag)"
  define ids where "ids = map (\<lambda>cid. ''Chunk::'' @ cid) merged"
  from ok have s: "set merged = set (normalize_kg (truthy_ids nodes)) \<union> set (map fst rag)"
    by (simp add: merged_def set_list_ok_def)
  note u = hybrid_retrieve_unfold[OF g r merged_def, folded ids_def]
  have 1: "hybrid_retrieve (without_node E nid) q t = hybrid_retrieve E q t"
    by (rule hybrid_retrieve_without_node[OF normalize_one_unprefixed[OF p]])
  have 2: "''Chunk::'' @ nid \<notin> set ids'"
    if a: "nid \<notin> set merged" and b: "FactsQuery ids' \<in> set (snd (hybrid_retrieve E q t))"
    for ids'
  proof -
    from b have "ids' = ids" by (cases "merged = []") (simp_all add: u)
    with a show ?thesis by (auto simp: ids_def)
  qed
  have 3: "nid \<notin> set (map fst chunks)"
    if a: "nid \<notin> set merged" and b: "fst (hybrid_retrieve E q t) = Inr (chunks, fs)"
    for chunks fs
  proof -
    from b have "map fst chunks = merged"
      by (cases "merged = []") (auto simp: u comp_def split: sum.splits)
    with a show ?thesis by simp
  qed
  from 1 2 3 s show ?thesis by blast
qed

theorem unprefixed_graph_id_discarded_witness:
  "hybrid_retrieve (without_node example_env ''Topic::DLG_Cap'') ''what is the dlg cap''
       (PStr ''DLG_Cap'')
     = hybrid_retrieve example_env ''what is the dlg cap'' (PStr ''DLG_Cap'')
   \<and> ''Chunk::Topic::DLG_Cap'' \<notin> set [''Chunk::doc_1'', ''Chunk::doc_2'', ''Chunk::doc_0'']
   \<and> FactsQuery [''Chunk::doc_1'', ''Chunk::doc_2'', ''Chunk::doc_0'']
       \<in> set (snd (hybrid_retrieve example_env ''what is the dlg cap'' (PStr ''DLG_Cap'')))
   \<and> ''Topic::DLG_Cap'' \<notin> set [''doc_1'', ''doc_2'', ''doc_0'']
   \<and> map fst (fst (projr (fst (hybrid_retrieve example_env ''what is the dlg cap''
         (PStr ''DLG_Cap''))))) = [''doc_1'', ''doc_2'', ''doc_0'']"
proof -
  let ?q = "''what is the dlg cap''" and ?t = "PStr ''DLG_Cap''"
  let ?nodes = "[Some ''Chunk::doc_0'', None, Some ''Clause::doc_1'', Some ''Topic::DLG_Cap'']"
  let ?rag = "[(''doc_2'', ''Text two''), (''doc_0'', ''Text zero'')]"
  let ?nid = "''Topic::DLG_Cap''"
  let ?ids = "[''Chunk::doc_1'', ''Chunk::doc_2'', ''Chunk::doc_0'']"
  let ?fs = "map (\<lambda>i. \<lparr>source = i, relation = ''partOf'', target = Some ''Regulation::doc'',
                         label = Some ''doc''\<rparr>) ?ids"
  let ?chunks = "[(''doc_1'', []), (''doc_2'', ''Text two''), (''doc_0'', ''Text zero'')]"
  have ok: "set_list_ok (id_set_list example_env)"
    by (simp add: example_env_def set_list_ok_remdups)
  have g: "graph_nodes example_env (topic_json ?t) = Inr ?nodes" by code_simp
  have r: "rag_search example_env ?q 5 = Inr ?rag" by code_simp
  have p1: "\<not> prefix ''Chunk::'' ?nid" by code_simp
  have p2: "\<not> prefix ''Clause::'' ?nid" by code_simp
  have n: "?nid \<notin> set (map fst ?rag) \<and> ?nid \<notin> set (normalize_kg (truthy_ids ?nodes))"
    by code_simp
  have l: "FactsQuery ?ids \<in> set (snd (hybrid_retrieve example_env ?q ?t))" by code_simp
  have c: "fst (hybrid_retrieve example_env ?q ?t) = Inr (?chunks, ?fs)" by code_simp
  note w = unprefixed_graph_id_discarded[OF ok g r p1 p2]
  from w have 1: "hybrid_retrieve (without_node example_env ?nid) ?q ?t
                    = hybrid_retrieve example_env ?q ?t" by blast
  from w n l have 2: "''Chunk::'' @ ?nid \<notin> set ?ids" by blast
  from w n c have 3: "?nid \<notin> set (map fst ?chunks)" by blast
  from c have 4: "map fst (fst (projr (fst (hybrid_retrieve example_env ?q ?t))))
                    = [''doc_1'', ''doc_2'', ''doc_0'']" by simp
  from 1 2 3 4 l show ?thesis by simp
qed

theorem unprefixed_graph_id_kept_counterexample:
  "fst (get_topic_related_nodes env_unprefixed (PStr ''DLG_Cap'')) = Inr [''doc_2'']
   \<and> \<not> prefix ''Chunk::'' ''doc_2'' \<and> \<not> prefix ''Clause::'' ''doc_2''
   \<and> hybrid_retrieve env_unprefixed ''what is the dlg cap'' (PStr ''DLG_Cap'') =
       (Inr ([(''doc_2'', ''Text two''), (''doc_0'', ''Text zero'')],
             [\<lparr>source = ''Chunk::doc_2'', relation = ''partOf'',
               target = Some ''Regulation::doc'', label = Some ''doc''\<rparr>,
              \<lparr>source = ''Chunk::doc_0'', relation = ''partOf'',
               target = Some ''Regulation::doc'', label = Some ''doc''\<rparr>]),
        [TopicQuery (topic_json (PStr ''DLG_Cap'')),
         FactsQuery [''Chunk::doc_2'', ''Chunk::doc_0'']])"
  by code_simp

section \<open>Properties of the intent classifier\<close>

text \<open>
  C1. \<open>llm_intent\<close> returns a pair for every question and every behaviour of the
  language model (it is a total function, every exception of the \<open>try\<close> block being a
  branch that ends in the fallback). The topic of an \<open>rbi_query\<close> is not always
  non-null: for a question with no greeting and no keyword, a model answer that decodes
  to an object with a \<open>null\<close> topic, or with no \<open>topic\<close> key, is returned as
  \<open>("rbi_query", None)\<close>.
\<close>

theorem llm_intent_rbi_query_without_topic:
  "llm_intent env_llm_null_topic ''what are the rules on outsourcing'' = (PStr ''rbi_query'', PNone)
   \<and> llm_intent env_llm_omits_topic ''what are the rules on outsourcing'' = (PStr ''rbi_query'', PNone)"
  by code_simp

section \<open>Properties of the ask operation\<close>

text \<open>
  C8. For a non-empty question that is not classified as chit-chat, when follow-up
  detection (and the rewrite, if any) succeed and retrieval returns no fragments and no
  facts, \<open>ask\<close> returns a response (not an error) whose answer is the fixed text
  \<open>NOT_FOUND\<close>, with no fragments and no facts, and the conversation memory holds that
  answer for the request's conversation identifier.
\<close>

theorem ask_no_evidence:
  assumes nonempty: "q \<noteq> []"
      and q: "q = strip (question req)"
      and cid: "cid = (case conversation_id req of
                         None \<Rightarrow> uuid4 E
                       | Some c \<Rightarrow> if c = [] then uuid4 E else c)"
      and mem1: "mem1 = (if clear req = Some True then clear_conversation mem cid else mem)"
      and regulatory: "fst (llm_intent E q) \<noteq> PStr ''chit_chat''"
      and followup: "is_followup (cos_sim E) (get_last_reply mem1 cid) q = Inr fu"
      and rewritten: "(if fu then rewrite_followup E (get_last_reply mem1 cid) q else Inr q) = Inr q'"
      and no_evidence: "retrieve E q' (snd (llm_intent E q)) = Inr ([], [], used)"
  shows "ask E mem req =
           (Inr \<lparr>response_conversation_id = cid, answer = NOT_FOUND,
                 chunks_used = [], kg_facts = []\<rparr>,
            mem1(cid \<mapsto> NOT_FOUND))"
proof -
  let ?prev = "get_last_reply mem1 cid"
  have "ask E mem req =
      (case is_followup (cos_sim E) ?prev q of
         Inl e \<Rightarrow> (Inl e, mem1)
       | Inr fu \<Rightarrow>
           (case (if fu then rewrite_followup E ?prev q else Inr q) of
              Inl e \<Rightarrow> (Inl e, mem1)
            | Inr q' \<Rightarrow>
                (case retrieve E q' (snd (llm_intent E q)) of
                   Inl e \<Rightarrow> (Inl e, mem1)
                 | Inr (chunks, facts, used) \<Rightarrow>
                     if chunks = [] \<and> facts = [] then
                       (Inr \<lparr>response_conversation_id = cid, answer = NOT_FOUND,
                             chunks_used = [], kg_facts = []\<rparr>,
                        set_last_reply mem1 cid NOT_FOUND)
                     else
                       (case build_llm_prompt E q' chunks facts ?prev of
                          Inl e \<Rightarrow> (Inl e, mem1)
                        | Inr prompt \<Rightarrow>
                            (case call_llm E prompt 0 of
                               Inl e \<Rightarrow> (Inl e, mem1)
                             | Inr reply \<Rightarrow>
                                 (Inr \<lparr>response_conversation_id = cid, answer = reply,
                                       chunks_used = used, kg_facts = facts\<rparr>,
                                  set_last_reply mem1 cid reply))))))"
    using nonempty regulatory unfolding ask_def Let_def mem1 cid q by simp
  then show ?thesis
    by (simp only: followup rewritten no_evidence sum.case prod.case simp_thms if_True
          set_last_reply_def)
qed

theorem ask_no_evidence_witness:
  "fst (ask env_empty memory_old request_dlg) =
     Inr \<lparr>response_conversation_id = ''conv-1'', answer = NOT_FOUND,
           chunks_used = [], kg_facts = []\<rparr>
   \<and> get_last_reply (snd (ask env_empty memory_old request_dlg)) ''conv-1'' = NOT_FOUND"
proof -
  let ?q = "''what is the dlg cap?''"
  have 1: "?q \<noteq> []" by simp
  have 2: "?q = strip (question request_dlg)" by code_simp
  have 3: "''conv-1'' = (case conversation_id request_dlg of
                          None \<Rightarrow> uuid4 env_empty
                        | Some c \<Rightarrow> if c = [] then uuid4 env_empty else c)"
    by (simp add: request_dlg_def)
  have 4: "memory_old = (if clear request_dlg = Some True
                         then clear_conversation memory_old ''conv-1'' else memory_old)"
    by (simp add: request_dlg_def)
  have 5: "fst (llm_intent env_empty ?q) \<noteq> PStr ''chit_chat''" by code_simp
  have 6: "is_followup (cos_sim env_empty) (get_last_reply memory_old ''conv-1'') ?q = Inr False"
    by code_simp
  have 7: "(if False then rewrite_followup env_empty (get_last_reply memory_old ''conv-1'') ?q
            else Inr ?q) = Inr ?q" by simp
  have 8: "retrieve env_empty ?q (snd (llm_intent env_empty ?q)) = Inr ([], [], [])"
    by code_simp
  from ask_no_evidence[OF 1 2 3 4 5 6 7 8]
  have "ask env_empty memory_old request_dlg =
          (Inr \<lparr>response_conversation_id = ''conv-1'', answer = NOT_FOUND,
                chunks_used = [], kg_facts = []\<rparr>,
           memory_old(''conv-1'' \<mapsto> NOT_FOUND))" .
  then show ?thesis by (simp add: get_last_reply_def)
qed

section \<open>Properties of the evidence prompt\<close>

lemma distinct_same_small_set:
  assumes "distinct xs" and "distinct ys" and "set xs = set ys" and "card (set xs) \<le> 1"
  shows "xs = ys"
proof -
  from assms have lx: "length xs \<le> 1" and ly: "length ys \<le> 1"
    by (simp_all add: distinct_card[symmetric])
  show ?thesis
  proof (cases xs)
    case Nil
    with assms(3) show ?thesis by simp
  next
    case (Cons x xs')
    with lx have x: "xs = [x]" by simp
    with assms(3) have "set ys = {x}" by simp
    with ly have "ys = [x]" by (cases ys) auto
    with x show ?thesis by simp
  qed
qed

lemma build_prompt_cong:
  assumes "\<forall>g \<in> set (group_facts facts). sl1 (snd g) = sl2 (snd g)"
  shows "build_prompt sl1 q chunks facts = build_prompt sl2 q chunks facts"
proof -
  from assms
  have m: "map (kg_line sl1) (group_facts facts) = map (kg_line sl2) (group_facts facts)"
    by (simp add: kg_line_def)
  show ?thesis unfolding build_prompt_def m ..
qed

text \<open>
  C3, as the code has it. \<open>build_prompt\<close> is a function of the question, the fragments,
  the facts and the order in which Python enumerates the set of labels of each relation.
  Two runs on identical inputs produce the same prompt when they enumerate every
  relation's labels in the same order, and in particular, whatever the enumeration, when
  no relation has two different labels.
\<close>

theorem build_prompt_depends_on_set_order_only:
  "((\<forall>g \<in> set (group_facts facts). sl1 (snd g) = sl2 (snd g))
      \<longrightarrow> build_prompt sl1 q chunks facts = build_prompt sl2 q chunks facts)
   \<and> (set_list_ok sl1 \<and> set_list_ok sl2
        \<and> (\<forall>g \<in> set (group_facts facts). card (set (snd g)) \<le> 1)
      \<longrightarrow> build_prompt sl1 q chunks facts = build_prompt sl2 q chunks facts)"
proof (intro conjI impI)
  assume "\<forall>g \<in> set (group_facts facts). sl1 (snd g) = sl2 (snd g)"
  then show "build_prompt sl1 q chunks facts = build_prompt sl2 q chunks facts"
    by (rule build_prompt_cong)
next
  assume a: "set_list_ok sl1 \<and> set_list_ok sl2
               \<and> (\<forall>g \<in> set (group_facts facts). card (set (snd g)) \<le> 1)"
  have "sl1 (snd g) = sl2 (snd g)" if "g \<in> set (group_facts facts)" for g
  proof (rule distinct_same_small_set)
    from a show "distinct (sl1 (snd g))" and "distinct (sl2 (snd g))"
      and "set (sl1 (snd g)) = set (sl2 (snd g))"
      by (simp_all add: set_list_ok_def)
    from a that show "card (set (sl1 (snd g))) \<le> 1"
      by (simp add: set_list_ok_def)
  qed
  then show "build_prompt sl1 q chunks facts = build_prompt sl2 q chunks facts"
    by (intro build_prompt_cong) blast
qed

lemma set_list_ok_rev_remdups: "set_list_ok rev_set_list"
  by (simp add: set_list_ok_def rev_set_list_def)

theorem build_prompt_depends_on_set_order_only_witness:
  "build_prompt remdups ''what is the dlg cap'' [(''doc_0'', ''Text zero'')] facts_one_label
     = build_prompt rev_set_list ''what is the dlg cap'' [(''doc_0'', ''Text zero'')]
         facts_one_label
   \<and> map (kg_line remdups) (group_facts facts_one_label)
       = [Inr ''partOf: doc'', Inr ''appliesTo: Bank'']"
proof -
  have g: "group_facts facts_one_label =
             [(''partOf'', [Some ''doc'', Some ''doc'']), (''appliesTo'', [Some ''Bank''])]"
    by code_simp
  have a: "\<forall>g \<in> set (group_facts facts_one_label).
             remdups (snd g) = rev_set_list (snd g)"
    unfolding g by (simp add: rev_set_list_def)
  have b: "set_list_ok (remdups :: string option list \<Rightarrow> _)
           \<and> set_list_ok (rev_set_list :: string option list \<Rightarrow> _)
           \<and> (\<forall>g \<in> set (group_facts facts_one_label). card (set (snd g)) \<le> 1)"
    unfolding g by (simp add: set_list_ok_remdups set_list_ok_rev_remdups)
  note t = build_prompt_depends_on_set_order_only[where facts = facts_one_label
      and ?sl1.0 = remdups and ?sl2.0 = rev_set_list
      and q = "''what is the dlg cap''" and chunks = "[(''doc_0'', ''Text zero'')]"]
  from t a have 1: "build_prompt remdups ''what is the dlg cap'' [(''doc_0'', ''Text zero'')]
       facts_one_label
     = build_prompt rev_set_list ''what is the dlg cap'' [(''doc_0'', ''Text zero'')]
         facts_one_label" by blast
  from t b have 2: "build_prompt remdups ''what is the dlg cap'' [(''doc_0'', ''Text zero'')]
       facts_one_label
     = build_prompt rev_set_list ''what is the dlg cap'' [(''doc_0'', ''Text zero'')]
         facts_one_label" by blast
  have 3: "map (kg_line remdups) (group_facts facts_one_label)
       = [Inr ''partOf: doc'', Inr ''appliesTo: Bank'']" by code_simp
  from 2 3 show ?thesis by (rule conjI)
qed

theorem build_prompt_two_runs_differ_counterexample:
  "set_list_ok (remdups :: string option list \<Rightarrow> string option list)
   \<and> set_list_ok (rev_set_list :: string option list \<Rightarrow> string option list)
   \<and> map (kg_line remdups) (group_facts facts_two_labels) = [Inr ''appliesTo: Bank, NBFC'']
   \<and> map (kg_line rev_set_list) (group_facts facts_two_labels)
       = [Inr ''appliesTo: NBFC, Bank'']
   \<and> build_prompt remdups ''what is the dlg cap'' [(''doc_0'', ''Text zero'')] facts_two_labels
       \<noteq> build_prompt rev_set_list ''what is the dlg cap''
            [(''doc_0'', ''Text zero'')] facts_two_labels"
proof -
  have "map (kg_line remdups) (group_facts facts_two_labels) = [Inr ''appliesTo: Bank, NBFC'']
   \<and> map (kg_line rev_set_list) (group_facts facts_two_labels)
       = [Inr ''appliesTo: NBFC, Bank'']
   \<and> build_prompt remdups ''what is the dlg cap'' [(''doc_0'', ''Text zero'')] facts_two_labels
       \<noteq> build_prompt rev_set_list ''what is the dlg cap''
            [(''doc_0'', ''Text zero'')] facts_two_labels"
    by code_simp
  with set_list_ok_remdups set_list_ok_rev_remdups show ?thesis by blast
qed

end
